theory Spec2Isabelle
  imports Main
begin

section \<open>Data of the two services\<close>

text \<open>
  The repository holds two small HTTP programs that share one signing key: the user service
  (\<^verbatim>\<open>HandleLogin\<close>, which issues a token) and the auth service (\<^verbatim>\<open>jwtAuthMiddleware\<close>,
  which checks the token of every request). Go strings and byte slices are byte lists.
\<close>

record User =
  Username :: string
  Password :: string

text \<open>\<^verbatim>\<open>jwt.MapClaims\<close> is \<^verbatim>\<open>map[string]interface{}\<close>; the values the code stores are a
  string (\<^verbatim>\<open>sub\<close>) and two \<^verbatim>\<open>int64\<close> Unix times (\<^verbatim>\<open>iat\<close>, \<^verbatim>\<open>exp\<close>).\<close>

datatype claim_value = Str string | Num int

type_synonym MapClaims = "string \<rightharpoonup> claim_value"

text \<open>\<^verbatim>\<open>jwt.Token\<close>: \<open>Method\<close> holds what \<^verbatim>\<open>t.Method.Alg()\<close> returns.\<close>

record Token =
  Method :: string
  Claims :: MapClaims
  Valid :: bool

text \<open>
  Errors of the token library. \<open>ErrTokenSignatureInvalid\<close> is the one the source names
  (the key function returns it). The others are the failures the specification gives to the
  codec; the code never looks at which error it got.
\<close>

datatype jwt_error =
    ErrTokenSignatureInvalid
  | AlgorithmMismatch
  | SignatureInvalid
  | MalformedClaims
  | TokenExpired
  | EncodingError
  | MalformedToken

datatype body = Text string | JsonObject "(string \<times> string) list"

record Response =
  status :: nat
  body :: body

definition StatusOK :: nat where "StatusOK = 200"
definition StatusBadRequest :: nat where "StatusBadRequest = 400"
definition StatusUnauthorized :: nat where "StatusUnauthorized = 401"
definition StatusInternalServerError :: nat where "StatusInternalServerError = 500"

text \<open>\<^verbatim>\<open>http.Error(w, msg, code)\<close> writes the message followed by a newline.\<close>

definition http_Error :: "string \<Rightarrow> nat \<Rightarrow> Response" where
  "http_Error msg code = \<lparr>status = code, body = Text (msg @ [CHR 0x0A])\<rparr>"

text \<open>Both \<^verbatim>\<open>main\<close> functions set the key to the same bytes before serving.\<close>

definition JwtKey :: string where
  "JwtKey = ''supersecretkey''"

section \<open>Time\<close>

text \<open>
  A \<^verbatim>\<open>time.Time\<close> is taken as the number of nanoseconds since the Unix epoch, a
  \<^verbatim>\<open>time.Duration\<close> as a number of nanoseconds. \<^verbatim>\<open>Unix()\<close> rounds down to seconds.
\<close>

type_synonym Time = int

definition Hour :: int where
  "Hour = 3600 * 1000000000"

definition Add :: "Time \<Rightarrow> int \<Rightarrow> Time" where
  "Add t d = t + d"

definition Unix :: "Time \<Rightarrow> int" where
  "Unix t = t div 1000000000"

section \<open>The login handler\<close>

definition SigningMethodHS256 :: string where
  "SigningMethodHS256 = ''HS256''"

definition NewWithClaims :: "string \<Rightarrow> MapClaims \<Rightarrow> Token" where
  "NewWithClaims method claims = \<lparr>Method = method, Claims = claims, Valid = False\<rparr>"

text \<open>
  The claims built by \<^verbatim>\<open>HandleLogin\<close>. The source calls \<^verbatim>\<open>time.Now()\<close> once for
  \<^verbatim>\<open>iat\<close> and once more for \<^verbatim>\<open>exp\<close>: \<open>now_iat\<close> and \<open>now_exp\<close> are these two
  readings of the clock, in the order they are taken.
\<close>

definition login_claims :: "User \<Rightarrow> Time \<Rightarrow> Time \<Rightarrow> MapClaims" where
  "login_claims req now_iat now_exp =
     [''sub'' \<mapsto> Str (Username req),
      ''iat'' \<mapsto> Num (Unix now_iat),
      ''exp'' \<mapsto> Num (Unix (Add now_exp (24 * Hour)))]"

text \<open>
  \<^verbatim>\<open>HandleLogin\<close>. What the code takes from outside is a parameter: \<open>json_Decode\<close> is
  \<^verbatim>\<open>json.NewDecoder(r.Body).Decode(&req)\<close> (\<open>None\<close> when it returns an error),
  \<open>SignedString\<close> is the library's \<^verbatim>\<open>token.SignedString\<close>, \<open>OurUser\<close> is the
  reference record (declared outside the files at hand), \<open>key\<close> is the global
  \<^verbatim>\<open>JwtKey\<close>. The two log lines write nothing to the response.
\<close>

definition HandleLogin ::
  "(string \<Rightarrow> User option) \<Rightarrow> (Token \<Rightarrow> string \<Rightarrow> jwt_error + string) \<Rightarrow>
   User \<Rightarrow> string \<Rightarrow> Time \<Rightarrow> Time \<Rightarrow> string \<Rightarrow> Response" where
  "HandleLogin json_Decode SignedString OurUser key now_iat now_exp request_body =
     (case json_Decode request_body of
        None \<Rightarrow> http_Error ''bad request'' StatusBadRequest
      | Some req \<Rightarrow>
          if Password req \<noteq> Password OurUser \<or> Username req \<noteq> Username OurUser
          then http_Error ''invalid credentials'' StatusUnauthorized
          else
            let claims = login_claims req now_iat now_exp;
                token = NewWithClaims SigningMethodHS256 claims
            in (case SignedString token key of
                  Inl err \<Rightarrow> http_Error ''server error'' StatusInternalServerError
                | Inr signed \<Rightarrow>
                    \<lparr>status = StatusOK,
                     body = JsonObject [(''access_token'', signed), (''token_type'', ''bearer'')]\<rparr>))"

section \<open>The authentication middleware\<close>

subsection \<open>String functions of the Go library\<close>

text \<open>\<^verbatim>\<open>strings.SplitN(s, sep, n)\<close> for a separator of one byte and \<open>n \<ge> 0\<close>: at most
  \<open>n\<close> pieces, the last one the unsplit rest.\<close>

fun SplitN :: "string \<Rightarrow> char \<Rightarrow> nat \<Rightarrow> string list" where
  "SplitN s sep 0 = []"
| "SplitN s sep (Suc 0) = [s]"
| "SplitN s sep (Suc (Suc n)) =
     (case dropWhile (\<lambda>c. c \<noteq> sep) s of
        [] \<Rightarrow> [s]
      | _ # rest \<Rightarrow> takeWhile (\<lambda>c. c \<noteq> sep) s # SplitN rest sep (Suc n))"

text \<open>
  \<^verbatim>\<open>strings.ToLower\<close> on the ASCII letters. Bytes outside ASCII are left as they are; Go
  maps them to other bytes outside ASCII or to \<open>k\<close> or \<open>i\<close>, so the comparison
  with \<^verbatim>\<open>"bearer"\<close> comes out the same.
\<close>

definition lower_char :: "char \<Rightarrow> char" where
  "lower_char c =
     (let n = (of_char c :: nat) in if 65 \<le> n \<and> n \<le> 90 then char_of (n + 32) else c)"

definition ToLower :: "string \<Rightarrow> string" where
  "ToLower s = map lower_char s"

text \<open>\<^verbatim>\<open>r.Header.Get("Authorization")\<close>: the empty string when the header is absent.\<close>

definition Header_Get :: "string option \<Rightarrow> string" where
  "Header_Get h = (case h of None \<Rightarrow> [] | Some v \<Rightarrow> v)"

subsection \<open>The key function\<close>

text \<open>
  The function literal handed to \<^verbatim>\<open>jwt.Parse\<close>. The slice expression
  \<^verbatim>\<open>t.Method.Alg()[:2]\<close> panics on a name shorter than two bytes.
\<close>

datatype key_result = KeyPanic | KeyErr jwt_error | Key string

definition keyfunc :: "string \<Rightarrow> Token \<Rightarrow> key_result" where
  "keyfunc key t =
     (if length (Method t) < 2 then KeyPanic
      else if take 2 (Method t) \<noteq> ''HS'' then KeyErr ErrTokenSignatureInvalid
      else Key key)"

subsection \<open>The middleware\<close>

datatype parse_result = ParsePanic | ParseErr jwt_error | Parsed Token

text \<open>
  The first half of the handler, up to \<^verbatim>\<open>tokenStr := parts[1]\<close>: either the response
  of an early return, or the string that is then handed to \<^verbatim>\<open>jwt.Parse\<close>.
\<close>

definition bearer_token :: "string option \<Rightarrow> Response + string" where
  "bearer_token authorization =
     (let h = Header_Get authorization in
      if h = [] then Inl (http_Error ''missing Authorization header'' StatusUnauthorized)
      else
        let parts = SplitN h (CHR '' '') 2 in
        if length parts \<noteq> 2 \<or> ToLower (parts ! 0) \<noteq> ''bearer''
        then Inl (http_Error ''invalid Authorization header'' StatusUnauthorized)
        else Inr (parts ! 1))"

text \<open>
  What the handler does with a request: it writes a response itself, or calls
  \<^verbatim>\<open>next.ServeHTTP\<close> with the claims stored in the request context, or panics.
\<close>

datatype Outcome = Responded Response | Next MapClaims | Panicked

definition jwtAuthMiddleware ::
  "(string \<Rightarrow> (Token \<Rightarrow> key_result) \<Rightarrow> parse_result) \<Rightarrow> string \<Rightarrow> string option \<Rightarrow> Outcome" where
  "jwtAuthMiddleware Parse key authorization =
     (case bearer_token authorization of
        Inl response \<Rightarrow> Responded response
      | Inr tokenStr \<Rightarrow>
          (case Parse tokenStr (keyfunc key) of
             ParsePanic \<Rightarrow> Panicked
           | ParseErr err \<Rightarrow> Responded (http_Error ''invalid token'' StatusUnauthorized)
           | Parsed token \<Rightarrow>
               if \<not> Valid token
               then Responded (http_Error ''invalid token'' StatusUnauthorized)
               else Next (Claims token)))"

subsection \<open>The header check as the specification words it\<close>

text \<open>
  The specification asks that the header "split into exactly two whitespace-separated
  parts". \<open>spec_whitespace_parts\<close> follows these words: the maximal runs of bytes that
  are not white space. It is not taken from the code, which calls \<^verbatim>\<open>SplitN\<close>.
\<close>

definition is_space :: "char \<Rightarrow> bool" where
  "is_space c = (c \<in> set [CHR '' '', CHR 0x09, CHR 0x0A, CHR 0x0B, CHR 0x0C, CHR 0x0D])"

fun spec_whitespace_parts_acc :: "string \<Rightarrow> string \<Rightarrow> string list" where
  "spec_whitespace_parts_acc cur [] = (if cur = [] then [] else [rev cur])"
| "spec_whitespace_parts_acc cur (c # cs) =
     (if is_space c
      then (if cur = [] then [] else [rev cur]) @ spec_whitespace_parts_acc [] cs
      else spec_whitespace_parts_acc (c # cur) cs)"

definition spec_whitespace_parts :: "string \<Rightarrow> string list" where
  "spec_whitespace_parts s = spec_whitespace_parts_acc [] s"

section \<open>The token codec\<close>

text \<open>
  The code signs with \<^verbatim>\<open>token.SignedString\<close> and verifies with \<^verbatim>\<open>jwt.Parse\<close>, both of
  the token library, whose code is not among the files at hand. The two functions below are
  written from the specification (4.1 Token Codec, 6 Token wire format); the handler and the
  middleware above take them as parameters.
\<close>

text \<open>
  Modelled from the spec: the serialisation of header and claims and the keyed signature
  (the library's JSON, base64url and HMAC code). The specification says that header and
  claims are serialised into segments that can be decoded again and that the signature is
  computed from the key over header and claims; nothing more is fixed here.
\<close>

record Codec =
  encode_header :: "string \<Rightarrow> string"
  decode_header :: "string \<Rightarrow> string option"
  encode_claims :: "MapClaims \<Rightarrow> string option"
  decode_claims :: "string \<Rightarrow> MapClaims option"
  signature :: "string \<Rightarrow> string \<Rightarrow> string \<Rightarrow> string"

text \<open>Splitting at every occurrence of a separator of one byte (Go's
  \<^verbatim>\<open>strings.Split\<close>).\<close>

fun split_on :: "char \<Rightarrow> string \<Rightarrow> string list" where
  "split_on sep [] = [[]]"
| "split_on sep (x # xs) =
     (if x = sep then [] # split_on sep xs
      else (case split_on sep xs of [] \<Rightarrow> [[x]] | p # ps \<Rightarrow> (x # p) # ps))"

text \<open>Modelled from the spec: the required claims of a ClaimSet (3 Data model), subject,
  issuedAt and expiresAt, each of its type; \<open>None\<close> if one is absent or of the wrong
  type.\<close>

definition required_claims :: "MapClaims \<Rightarrow> (string \<times> int \<times> int) option" where
  "required_claims claims =
     (case claims ''sub'' of
        Some (Str sub) \<Rightarrow>
          (case claims ''iat'' of
             Some (Num iat) \<Rightarrow>
               (case claims ''exp'' of Some (Num exp) \<Rightarrow> Some (sub, iat, exp) | _ \<Rightarrow> None)
           | _ \<Rightarrow> None)
      | _ \<Rightarrow> None)"

text \<open>Modelled from the spec: a well-formed ClaimSet (3 Data model) has the required claims,
  and expiresAt is after issuedAt.\<close>

definition well_formed :: "MapClaims \<Rightarrow> bool" where
  "well_formed claims =
     (case required_claims claims of None \<Rightarrow> False | Some (sub, iat, exp) \<Rightarrow> iat < exp)"

text \<open>
  Modelled from the spec: \<^verbatim>\<open>token.SignedString(key)\<close> of the token library, the
  specification's Encode. It serialises the header that declares the token's algorithm and
  the claims, joins them with a dot, signs the result with the key and appends the
  signature; it fails with EncodingError if the claims cannot be serialised or the key is
  empty.
\<close>

definition Encode :: "Codec \<Rightarrow> Token \<Rightarrow> string \<Rightarrow> jwt_error + string" where
  "Encode C token key =
     (if key = [] then Inl EncodingError
      else
        (case encode_claims C (Claims token) of
           None \<Rightarrow> Inl EncodingError
         | Some payload \<Rightarrow>
             let signing_input = encode_header C (Method token) @ ''.'' @ payload
             in Inr (signing_input @ ''.'' @ signature C (Method token) key signing_input)))"

text \<open>
  Modelled from the spec: \<^verbatim>\<open>jwt.Parse(tokenStr, keyFunc)\<close> of the token library, the
  specification's Decode, at the Unix time \<open>now\<close>. In the order the specification gives:
  split into header, claims and signature; ask the key function for the key of the declared
  algorithm, and fail with AlgorithmMismatch if it refuses; recompute the signature and fail
  with SignatureInvalid if it differs; deserialise the claims and fail with MalformedClaims
  if a required one is absent or of the wrong type; fail with TokenExpired if expiresAt is
  past. The specification states Decode for strings of the three-part format only; any
  other string is rejected here as MalformedToken.
\<close>

definition Decode :: "Codec \<Rightarrow> int \<Rightarrow> string \<Rightarrow> (Token \<Rightarrow> key_result) \<Rightarrow> parse_result" where
  "Decode C now tokenStr keyFunc =
     (case split_on (CHR ''.'') tokenStr of
        [header, payload, sig] \<Rightarrow>
          (case decode_header C header of
             None \<Rightarrow> ParseErr MalformedToken
           | Some alg \<Rightarrow>
               (case keyFunc \<lparr>Method = alg, Claims = Map.empty, Valid = False\<rparr> of
                  KeyPanic \<Rightarrow> ParsePanic
                | KeyErr err \<Rightarrow> ParseErr AlgorithmMismatch
                | Key key \<Rightarrow>
                    if signature C alg key (header @ ''.'' @ payload) \<noteq> sig
                    then ParseErr SignatureInvalid
                    else
                      (case decode_claims C payload of
                         None \<Rightarrow> ParseErr MalformedClaims
                       | Some claims \<Rightarrow>
                           (case required_claims claims of
                              None \<Rightarrow> ParseErr MalformedClaims
                            | Some (sub, iat, exp) \<Rightarrow>
                                if exp < now then ParseErr TokenExpired
                                else Parsed \<lparr>Method = alg, Claims = claims, Valid = True\<rparr>))))
      | _ \<Rightarrow> ParseErr MalformedToken)"

text \<open>
  Modelled from the spec: what the specification says of the serialisation, for one
  algorithm name, claim set and key. Header and claims decode back to what was encoded
  ("each part independently reversible"), and no segment holds the dot that joins the
  segments (they are base64url text, whose alphabet has none).
\<close>

definition reversible :: "Codec \<Rightarrow> string \<Rightarrow> MapClaims \<Rightarrow> string \<Rightarrow> bool" where
  "reversible C alg claims key =
     (decode_header C (encode_header C alg) = Some alg \<and>
      CHR ''.'' \<notin> set (encode_header C alg) \<and>
      (case encode_claims C claims of
         None \<Rightarrow> False
       | Some payload \<Rightarrow>
           decode_claims C payload = Some claims \<and>
           CHR ''.'' \<notin> set payload \<and>
           CHR ''.'' \<notin> set (signature C alg key (encode_header C alg @ ''.'' @ payload))))"

subsection \<open>A small codec to run the definitions on\<close>

text \<open>
  A plain serialisation that has the properties above, used to evaluate the definitions at
  concrete tokens: the header is the algorithm name after an \<open>h\<close>; the claims are the
  subject and the two times in unary, separated by commas; the signature is the algorithm
  name, the key and the signing input, with the dots left out. It stands for no real
  cipher.
\<close>

definition example_decode_header :: "string \<Rightarrow> string option" where
  "example_decode_header segment =
     (case segment of [] \<Rightarrow> None | c # alg \<Rightarrow> if c = CHR ''h'' then Some alg else None)"

definition example_encode_claims :: "MapClaims \<Rightarrow> string option" where
  "example_encode_claims claims =
     (case required_claims claims of
        None \<Rightarrow> None
      | Some (sub, iat, exp) \<Rightarrow>
          if 0 \<le> iat \<and> 0 \<le> exp
          then Some (sub @ '','' @ replicate (nat iat) (CHR ''i'') @ '','' @
                       replicate (nat exp) (CHR ''e''))
          else None)"

definition example_decode_claims :: "string \<Rightarrow> MapClaims option" where
  "example_decode_claims payload =
     (case split_on (CHR '','') payload of
        [sub, iat, exp] \<Rightarrow>
          Some [''sub'' \<mapsto> Str sub, ''iat'' \<mapsto> Num (int (length iat)),
                ''exp'' \<mapsto> Num (int (length exp))]
      | _ \<Rightarrow> None)"

definition example_signature :: "string \<Rightarrow> string \<Rightarrow> string \<Rightarrow> string" where
  "example_signature alg key signing_input =
     filter (\<lambda>c. c \<noteq> CHR ''.'') (alg @ key @ signing_input)"

definition example_codec :: Codec where
  "example_codec =
     \<lparr>encode_header = (\<lambda>alg. CHR ''h'' # alg),
      decode_header = example_decode_header,
      encode_claims = example_encode_claims,
      decode_claims = example_decode_claims,
      signature = example_signature\<rparr>"

definition example_claims :: MapClaims where
  "example_claims = [''sub'' \<mapsto> Str ''alice'', ''iat'' \<mapsto> Num 1, ''exp'' \<mapsto> Num 5]"

section \<open>Properties of the login handler\<close>

text \<open>
  Claim C4. Two login requests whose credentials differ from the reference record, in the
  identifier, in the secret or in both, get the same response: status 401 and the body
  \<^verbatim>\<open>invalid credentials\<close>. The clock readings and the signer play no part.
\<close>

theorem HandleLogin_mismatch_uniform:
  assumes "json_Decode body1 = Some req1" and "json_Decode body2 = Some req2"
    and "Username req1 \<noteq> Username OurUser \<or> Password req1 \<noteq> Password OurUser"
    and "Username req2 \<noteq> Username OurUser \<or> Password req2 \<noteq> Password OurUser"
  shows "HandleLogin json_Decode SignedString OurUser key t1 t2 body1 =
           HandleLogin json_Decode SignedString OurUser key t3 t4 body2
         \<and> HandleLogin json_Decode SignedString OurUser key t1 t2 body1 =
           http_Error ''invalid credentials'' StatusUnauthorized
         \<and> status (HandleLogin json_Decode SignedString OurUser key t1 t2 body1) = 401"
  using assms by (auto simp: HandleLogin_def http_Error_def StatusUnauthorized_def)

theorem HandleLogin_mismatch_uniform_witness:
  "HandleLogin
     [''{username:bob,password:correct}'' \<mapsto> \<lparr>Username = ''bob'', Password = ''correct''\<rparr>,
      ''{username:alice,password:wrong}'' \<mapsto> \<lparr>Username = ''alice'', Password = ''wrong''\<rparr>]
     (\<lambda>t k. Inr ''signed'') \<lparr>Username = ''alice'', Password = ''correct''\<rparr> JwtKey 0 1
     ''{username:bob,password:correct}'' =
   HandleLogin
     [''{username:bob,password:correct}'' \<mapsto> \<lparr>Username = ''bob'', Password = ''correct''\<rparr>,
      ''{username:alice,password:wrong}'' \<mapsto> \<lparr>Username = ''alice'', Password = ''wrong''\<rparr>]
     (\<lambda>t k. Inr ''signed'') \<lparr>Username = ''alice'', Password = ''correct''\<rparr> JwtKey 5 7
     ''{username:alice,password:wrong}''"
  using HandleLogin_mismatch_uniform
    [of "[''{username:bob,password:correct}'' \<mapsto> \<lparr>Username = ''bob'', Password = ''correct''\<rparr>,
          ''{username:alice,password:wrong}'' \<mapsto> \<lparr>Username = ''alice'', Password = ''wrong''\<rparr>]"
        "''{username:bob,password:correct}''" "\<lparr>Username = ''bob'', Password = ''correct''\<rparr>"
        "''{username:alice,password:wrong}''" "\<lparr>Username = ''alice'', Password = ''wrong''\<rparr>"
        "\<lparr>Username = ''alice'', Password = ''correct''\<rparr>" "\<lambda>t k. Inr ''signed''" JwtKey 0 1 5 7]
  by simp

section \<open>Properties of the middleware\<close>

lemma SplitN_2:
  "SplitN h c 2 =
     (if c \<in> set h then [takeWhile (\<lambda>x. x \<noteq> c) h, tl (dropWhile (\<lambda>x. x \<noteq> c) h)] else [h])"
proof (cases "dropWhile (\<lambda>x. x \<noteq> c) h")
  case Nil
  then have "c \<notin> set h" by (auto simp: dropWhile_eq_Nil_conv)
  moreover have "SplitN h c 2 = [h]"
    using Nil by (simp add: numeral_2_eq_2 del: dropWhile_eq_Nil_conv)
  ultimately show ?thesis by simp
next
  case (Cons x rest)
  then have "x \<in> set h" by (metis list.set_intros(1) set_dropWhileD)
  moreover have "x = c" using Cons hd_dropWhile[of "\<lambda>x. x \<noteq> c" h] by auto
  ultimately show ?thesis using Cons by (simp add: numeral_2_eq_2)
qed

lemma takeWhile_sep: "c \<notin> set p \<Longrightarrow> takeWhile (\<lambda>x. x \<noteq> c) (p @ c # r) = p"
  by (induction p) auto

lemma dropWhile_sep: "c \<notin> set p \<Longrightarrow> dropWhile (\<lambda>x. x \<noteq> c) (p @ c # r) = c # r"
  by (induction p) auto

text \<open>
  The header check passes exactly on a header made of a scheme without a space that
  lower-cases to \<^verbatim>\<open>bearer\<close>, one space, and the rest; the rest, spaces and all, is the
  token string.
\<close>

lemma bearer_token_Inr_iff:
  "bearer_token authorization = Inr tokenStr \<longleftrightarrow>
     (\<exists>scheme. authorization = Some (scheme @ CHR '' '' # tokenStr) \<and>
        CHR '' '' \<notin> set scheme \<and> ToLower scheme = ''bearer'')"
proof
  assume L: "bearer_token authorization = Inr tokenStr"
  then obtain h where h: "authorization = Some h" "h \<noteq> []"
    by (cases authorization) (auto simp: bearer_token_def Header_Get_def split: if_splits)
  from L h have sp: "CHR '' '' \<in> set h"
    by (auto simp: bearer_token_def Header_Get_def SplitN_2 Let_def split: if_splits)
  let ?s = "takeWhile (\<lambda>x. x \<noteq> CHR '' '') h"
  let ?d = "dropWhile (\<lambda>x. x \<noteq> CHR '' '') h"
  from L h sp have "ToLower ?s = ''bearer''" "tokenStr = tl ?d"
    by (auto simp: bearer_token_def Header_Get_def SplitN_2 Let_def split: if_splits)
  moreover have "hd ?d = CHR '' ''" "?d \<noteq> []"
    using sp hd_dropWhile[of "\<lambda>x. x \<noteq> CHR '' ''" h] by (auto simp: dropWhile_eq_Nil_conv)
  then have "h = ?s @ CHR '' '' # tl ?d"
    by (metis takeWhile_dropWhile_id list.collapse)
  moreover have "CHR '' '' \<notin> set ?s" by (auto dest: set_takeWhileD)
  ultimately show "\<exists>scheme. authorization = Some (scheme @ CHR '' '' # tokenStr) \<and>
        CHR '' '' \<notin> set scheme \<and> ToLower scheme = ''bearer''"
    using h by blast
next
  assume "\<exists>scheme. authorization = Some (scheme @ CHR '' '' # tokenStr) \<and>
        CHR '' '' \<notin> set scheme \<and> ToLower scheme = ''bearer''"
  then obtain scheme where s: "authorization = Some (scheme @ CHR '' '' # tokenStr)"
     "CHR '' '' \<notin> set scheme" "ToLower scheme = ''bearer''" by blast
  have "takeWhile (\<lambda>x. x \<noteq> CHR '' '') (scheme @ CHR '' '' # tokenStr) = scheme"
    using s(2) by (rule takeWhile_sep)
  moreover have "dropWhile (\<lambda>x. x \<noteq> CHR '' '') (scheme @ CHR '' '' # tokenStr) = CHR '' '' # tokenStr"
    using s(2) by (rule dropWhile_sep)
  ultimately show "bearer_token authorization = Inr tokenStr"
    using s by (simp add: bearer_token_def Header_Get_def SplitN_2)
qed

lemma bearer_token_Inl_status:
  "bearer_token authorization = Inl response \<Longrightarrow> status response = StatusUnauthorized"
  by (auto simp: bearer_token_def http_Error_def Let_def split: if_splits)

text \<open>
  Claim C7, as the specification states it, fails: the header \<^verbatim>\<open>Bearer a b\<close> has three
  parts separated by white space, yet it passes the header check, and \<^verbatim>\<open>a b\<close> is
  handed to the token parser.
\<close>

theorem bearer_token_three_parts_counterexample:
  "length (spec_whitespace_parts ''Bearer a b'') = 3 \<and> bearer_token (Some ''Bearer a b'') = Inr ''a b''"
  by code_simp

text \<open>
  Claim C7, amended. A request whose Authorization header is missing or empty, has no space
  in it, or whose text before the first space is not \<^verbatim>\<open>bearer\<close> in any mix of cases, is
  answered with status 401 by the header check itself: the response is the same whatever
  the token parser would do, so the parser is not called.
\<close>

theorem jwtAuthMiddleware_header_rejected:
  assumes "authorization = None \<or>
           (\<exists>h. authorization = Some h \<and>
              (CHR '' '' \<notin> set h \<or> ToLower (takeWhile (\<lambda>c. c \<noteq> CHR '' '') h) \<noteq> ''bearer''))"
  shows "\<exists>response. bearer_token authorization = Inl response \<and> status response = 401 \<and>
           (\<forall>Parse key. jwtAuthMiddleware Parse key authorization = Responded response)"
proof (cases "bearer_token authorization")
  case (Inl response)
  then show ?thesis
    using bearer_token_Inl_status[OF Inl]
    by (simp add: jwtAuthMiddleware_def StatusUnauthorized_def)
next
  case (Inr tokenStr)
  then obtain scheme where s: "authorization = Some (scheme @ CHR '' '' # tokenStr)"
     "CHR '' '' \<notin> set scheme" "ToLower scheme = ''bearer''"
    unfolding bearer_token_Inr_iff by blast
  then have "takeWhile (\<lambda>c. c \<noteq> CHR '' '') (scheme @ CHR '' '' # tokenStr) = scheme"
    by (simp add: takeWhile_sep)
  with s assms show ?thesis by auto
qed

theorem jwtAuthMiddleware_header_rejected_witness:
  "(\<exists>response. bearer_token None = Inl response \<and> status response = 401 \<and>
      (\<forall>Parse key. jwtAuthMiddleware Parse key None = Responded response))
   \<and> (\<exists>response. bearer_token (Some ''Bearer'') = Inl response \<and> status response = 401 \<and>
      (\<forall>Parse key. jwtAuthMiddleware Parse key (Some ''Bearer'') = Responded response))
   \<and> (\<exists>response. bearer_token (Some ''Basic abc'') = Inl response \<and> status response = 401 \<and>
      (\<forall>Parse key. jwtAuthMiddleware Parse key (Some ''Basic abc'') = Responded response))"
proof -
  have single: "CHR '' '' \<notin> set ''Bearer''" by simp
  have scheme: "ToLower (takeWhile (\<lambda>c. c \<noteq> CHR '' '') ''Basic abc'') \<noteq> ''bearer''"
    by code_simp
  show ?thesis
    using jwtAuthMiddleware_header_rejected[of None]
      jwtAuthMiddleware_header_rejected[of "Some ''Bearer''"]
      jwtAuthMiddleware_header_rejected[of "Some ''Basic abc''"]
      single scheme
    by blast
qed

text \<open>
  Claim C8. Once the header check has passed, every error of the token parser, whichever
  it is, gives the same response: status 401 and the body \<^verbatim>\<open>invalid token\<close>.
\<close>

theorem jwtAuthMiddleware_codec_failure:
  assumes "bearer_token authorization = Inr tokenStr"
    and "Parse tokenStr (keyfunc key) = ParseErr err"
  shows "jwtAuthMiddleware Parse key authorization =
           Responded (http_Error ''invalid token'' StatusUnauthorized)
         \<and> status (http_Error ''invalid token'' StatusUnauthorized) = 401"
  using assms by (simp add: jwtAuthMiddleware_def http_Error_def StatusUnauthorized_def)

theorem jwtAuthMiddleware_codec_failure_witness:
  "jwtAuthMiddleware (\<lambda>tokenStr kf. ParseErr TokenExpired) JwtKey (Some ''Bearer abc'') =
     Responded (http_Error ''invalid token'' StatusUnauthorized)
   \<and> jwtAuthMiddleware (\<lambda>tokenStr kf. ParseErr SignatureInvalid) JwtKey (Some ''Bearer abc'') =
     Responded (http_Error ''invalid token'' StatusUnauthorized)"
proof -
  have h: "bearer_token (Some ''Bearer abc'') = Inr ''abc''" by code_simp
  show ?thesis
    using jwtAuthMiddleware_codec_failure
            [of "Some ''Bearer abc''" "''abc''" "\<lambda>tokenStr kf. ParseErr TokenExpired" JwtKey TokenExpired]
          jwtAuthMiddleware_codec_failure
            [of "Some ''Bearer abc''" "''abc''" "\<lambda>tokenStr kf. ParseErr SignatureInvalid" JwtKey
                SignatureInvalid]
          h
    by simp
qed

text \<open>
  Claim C10. The check of the key function is on the first two bytes only: it hands the
  process key to the verifier for every algorithm name that begins with \<^verbatim>\<open>HS\<close>,
  \<^verbatim>\<open>HS384\<close> and \<^verbatim>\<open>HS512\<close> among them, and the middleware forwards every token the
  parser then finds valid, with no check of the algorithm of its own. The login handler,
  for its part, always asks for a signature with \<^verbatim>\<open>HS256\<close>.
\<close>

theorem keyfunc_accepts_HS_family:
  "(2 \<le> length (Method t) \<and> take 2 (Method t) = ''HS'' \<longrightarrow> keyfunc key t = Key key)
   \<and> keyfunc key (NewWithClaims ''HS384'' claims) = Key key
   \<and> keyfunc key (NewWithClaims ''HS512'' claims) = Key key
   \<and> (bearer_token authorization = Inr tokenStr \<and>
        Parse tokenStr (keyfunc key) = Parsed token \<and> Valid token
        \<longrightarrow> jwtAuthMiddleware Parse key authorization = Next (Claims token))
   \<and> (json_Decode request_body = Some req \<and> Password req = Password OurUser \<and>
        Username req = Username OurUser
        \<longrightarrow> HandleLogin json_Decode SignedString OurUser key now_iat now_exp request_body =
            (case SignedString (NewWithClaims ''HS256'' (login_claims req now_iat now_exp)) key of
               Inl err \<Rightarrow> http_Error ''server error'' StatusInternalServerError
             | Inr signed \<Rightarrow>
                 \<lparr>status = StatusOK,
                  body = JsonObject [(''access_token'', signed), (''token_type'', ''bearer'')]\<rparr>))"
  by (simp add: keyfunc_def NewWithClaims_def jwtAuthMiddleware_def HandleLogin_def
      SigningMethodHS256_def)

text \<open>
  At concrete inputs: a parser that validates an \<^verbatim>\<open>HS512\<close> token once the key function
  has given it the key, and a signer that answers with the name of the algorithm it was
  asked for.
\<close>

theorem keyfunc_accepts_HS_family_witness:
  "keyfunc JwtKey \<lparr>Method = ''HS384'', Claims = Map.empty, Valid = False\<rparr> = Key JwtKey
   \<and> jwtAuthMiddleware
       (\<lambda>tokenStr keyFunc.
          case keyFunc \<lparr>Method = ''HS512'', Claims = Map.empty, Valid = False\<rparr> of
            Key k \<Rightarrow> Parsed \<lparr>Method = ''HS512'', Claims = example_claims, Valid = True\<rparr>
          | _ \<Rightarrow> ParseErr AlgorithmMismatch)
       JwtKey (Some ''Bearer abc'') = Next example_claims
   \<and> HandleLogin
       [''{username:alice,password:correct}'' \<mapsto> \<lparr>Username = ''alice'', Password = ''correct''\<rparr>]
       (\<lambda>token key. Inr (Method token)) \<lparr>Username = ''alice'', Password = ''correct''\<rparr> JwtKey 0 0
       ''{username:alice,password:correct}'' =
     \<lparr>status = 200,
      body = JsonObject [(''access_token'', ''HS256''), (''token_type'', ''bearer'')]\<rparr>"
proof -
  have h: "bearer_token (Some ''Bearer abc'') = Inr ''abc''" by code_simp
  have k: "keyfunc JwtKey \<lparr>Method = ''HS512'', Claims = Map.empty, Valid = False\<rparr> = Key JwtKey"
    by (simp add: keyfunc_def)
  show ?thesis
    using keyfunc_accepts_HS_family
      [of "\<lparr>Method = ''HS384'', Claims = Map.empty, Valid = False\<rparr>" JwtKey Map.empty
          "Some ''Bearer abc''" "''abc''"
          "\<lambda>tokenStr keyFunc.
             case keyFunc \<lparr>Method = ''HS512'', Claims = Map.empty, Valid = False\<rparr> of
               Key k \<Rightarrow> Parsed \<lparr>Method = ''HS512'', Claims = example_claims, Valid = True\<rparr>
             | _ \<Rightarrow> ParseErr AlgorithmMismatch"
          "\<lparr>Method = ''HS512'', Claims = example_claims, Valid = True\<rparr>"
          "[''{username:alice,password:correct}'' \<mapsto> \<lparr>Username = ''alice'', Password = ''correct''\<rparr>]"
          "''{username:alice,password:correct}''" "\<lparr>Username = ''alice'', Password = ''correct''\<rparr>"
          "\<lparr>Username = ''alice'', Password = ''correct''\<rparr>" "\<lambda>token key. Inr (Method token)" 0 0]
      h k
    by (simp add: NewWithClaims_def StatusOK_def)
qed

section \<open>The two readings of the clock\<close>

lemma login_claims_exp_iat:
  "login_claims req now_iat now_exp ''iat'' = Some (Num (Unix now_iat)) \<and>
   login_claims req now_iat now_exp ''exp'' = Some (Num (Unix now_exp + 86400)) \<and>
   login_claims req now_iat now_exp ''sub'' = Some (Str (Username req))"
  by (simp add: login_claims_def Unix_def Add_def Hour_def)

text \<open>
  Claim C2 at an input where the code departs from it. The first reading of the clock is
  the last nanosecond of second 0, the second reading the first nanosecond of second 1:
  the claims handed to the signer are \<open>iat = 0\<close> and \<open>exp = 86401\<close>, one second more
  than 24 hours apart.
\<close>

theorem HandleLogin_clock_read_twice:
  "HandleLogin
     [''{username:alice,password:correct}'' \<mapsto> \<lparr>Username = ''alice'', Password = ''correct''\<rparr>]
     SignedString \<lparr>Username = ''alice'', Password = ''correct''\<rparr> JwtKey 999999999 1000000000
     ''{username:alice,password:correct}'' =
   (case SignedString
           \<lparr>Method = ''HS256'',
            Claims = [''sub'' \<mapsto> Str ''alice'', ''iat'' \<mapsto> Num 0, ''exp'' \<mapsto> Num 86401],
            Valid = False\<rparr> JwtKey of
      Inl err \<Rightarrow> http_Error ''server error'' StatusInternalServerError
    | Inr signed \<Rightarrow>
        \<lparr>status = StatusOK,
         body = JsonObject [(''access_token'', signed), (''token_type'', ''bearer'')]\<rparr>)"
  by (simp add: HandleLogin_def login_claims_def NewWithClaims_def SigningMethodHS256_def
      Unix_def Add_def Hour_def)

text \<open>
  With a signer that writes one mark for every second by which \<open>exp\<close> is past 86400, the
  response shows the second too many.
\<close>

theorem HandleLogin_clock_read_twice_witness:
  "HandleLogin
     [''{username:alice,password:correct}'' \<mapsto> \<lparr>Username = ''alice'', Password = ''correct''\<rparr>]
     (\<lambda>token key.
        case Claims token ''exp'' of
          Some (Num exp) \<Rightarrow> Inr (replicate (nat (exp - 86400)) (CHR ''s''))
        | _ \<Rightarrow> Inl EncodingError)
     \<lparr>Username = ''alice'', Password = ''correct''\<rparr> JwtKey 999999999 1000000000
     ''{username:alice,password:correct}'' =
   \<lparr>status = 200, body = JsonObject [(''access_token'', ''s''), (''token_type'', ''bearer'')]\<rparr>"
  using HandleLogin_clock_read_twice
    [of "\<lambda>token key.
           case Claims token ''exp'' of
             Some (Num exp) \<Rightarrow> Inr (replicate (nat (exp - 86400)) (CHR ''s''))
           | _ \<Rightarrow> Inl EncodingError"]
  by (simp add: StatusOK_def)

section \<open>Properties of the token codec\<close>

lemma split_on_no_sep: "sep \<notin> set a \<Longrightarrow> split_on sep a = [a]"
  by (induction a) auto

lemma split_on_append: "sep \<notin> set a \<Longrightarrow> split_on sep (a @ sep # r) = a # split_on sep r"
  by (induction a) auto

lemma split_on_three:
  "sep \<notin> set a \<Longrightarrow> sep \<notin> set b \<Longrightarrow> sep \<notin> set c \<Longrightarrow>
     split_on sep (a @ sep # b @ sep # c) = [a, b, c]"
  by (simp add: split_on_append split_on_no_sep)

lemma bearer_token_Bearer: "bearer_token (Some (''Bearer '' @ tokenStr)) = Inr tokenStr"
proof -
  have "ToLower ''Bearer'' = ''bearer''" by code_simp
  then show ?thesis
    unfolding bearer_token_Inr_iff by (intro exI[of _ "''Bearer''"]) simp
qed

text \<open>
  Encoding and then decoding under the same key, for any algorithm name the key function
  lets through: the result depends on the claims only.
\<close>

lemma Decode_Encode:
  assumes rev: "reversible C alg claims key"
    and key: "key \<noteq> []"
    and alg: "2 \<le> length alg" "take 2 alg = ''HS''"
  shows "\<exists>token. Encode C (NewWithClaims alg claims) key = Inr token \<and>
           Decode C now token (keyfunc key) =
             (case required_claims claims of
                None \<Rightarrow> ParseErr MalformedClaims
              | Some (sub, iat, exp) \<Rightarrow>
                  if exp < now then ParseErr TokenExpired
                  else Parsed \<lparr>Method = alg, Claims = claims, Valid = True\<rparr>)"
proof -
  from rev obtain payload where p: "encode_claims C claims = Some payload"
    "decode_claims C payload = Some claims" "CHR ''.'' \<notin> set payload"
    "CHR ''.'' \<notin> set (signature C alg key (encode_header C alg @ ''.'' @ payload))"
    by (auto simp: reversible_def split: option.splits)
  from rev have h: "decode_header C (encode_header C alg) = Some alg"
    "CHR ''.'' \<notin> set (encode_header C alg)"
    by (auto simp: reversible_def)
  let ?input = "encode_header C alg @ ''.'' @ payload"
  let ?token = "?input @ ''.'' @ signature C alg key ?input"
  have enc: "Encode C (NewWithClaims alg claims) key = Inr ?token"
    using key p(1) by (simp add: Encode_def NewWithClaims_def)
  have split: "split_on (CHR ''.'') ?token =
      [encode_header C alg, payload, signature C alg key ?input]"
    using split_on_three[OF h(2) p(3) p(4)] by simp
  have kf: "keyfunc key \<lparr>Method = alg, Claims = Map.empty, Valid = False\<rparr> = Key key"
    using alg by (simp add: keyfunc_def)
  have "Decode C now ?token (keyfunc key) =
             (case required_claims claims of
                None \<Rightarrow> ParseErr MalformedClaims
              | Some (sub, iat, exp) \<Rightarrow>
                  if exp < now then ParseErr TokenExpired
                  else Parsed \<lparr>Method = alg, Claims = claims, Valid = True\<rparr>)"
    unfolding Decode_def split by (simp add: h(1) kf p(2))
  with enc show ?thesis by blast
qed


lemma required_example: "required_claims example_claims = Some (''alice'', 1, 5)"
  by (simp add: required_claims_def example_claims_def)

lemma encode_example: "example_encode_claims example_claims = Some ''alice,i,eeeee''"
  by (simp add: example_encode_claims_def required_example eval_nat_numeral)

lemma decode_example: "example_decode_claims ''alice,i,eeeee'' = Some example_claims"
  by (simp add: example_decode_claims_def example_claims_def)

lemma reversible_example: "reversible example_codec ''HS256'' example_claims JwtKey"
  by (simp add: reversible_def example_codec_def encode_example decode_example
      example_decode_header_def example_signature_def JwtKey_def)

text \<open>
  When the key function refuses the declared algorithm, Decode gives the failure the
  specification calls AlgorithmMismatch, whatever the signature segment holds.
\<close>

lemma Decode_algorithm_mismatch:
  assumes "split_on (CHR ''.'') tokenStr = [header, payload, sig]"
    and "decode_header C header = Some alg"
    and "2 \<le> length alg" and "take 2 alg \<noteq> ''HS''"
  shows "Decode C now tokenStr (keyfunc key) = ParseErr AlgorithmMismatch"
proof -
  have "keyfunc key \<lparr>Method = alg, Claims = Map.empty, Valid = False\<rparr> =
      KeyErr ErrTokenSignatureInvalid"
    using assms(3,4) by (simp add: keyfunc_def)
  then show ?thesis
    unfolding Decode_def assms(1) using assms(2) by simp
qed

text \<open>
  Whenever Decode accepts a token string, the algorithm its header declares has passed the
  check of the key function.
\<close>

lemma Decode_Parsed_HS:
  assumes "Decode C now tokenStr (keyfunc key) = Parsed token"
  shows "2 \<le> length (Method token) \<and> take 2 (Method token) = ''HS''"
proof -
  from assms obtain header payload sig where
    s: "split_on (CHR ''.'') tokenStr = [header, payload, sig]"
    by (auto simp: Decode_def split: list.splits)
  from assms s obtain alg where a: "decode_header C header = Some alg"
    by (auto simp: Decode_def split: option.splits)
  from assms s a have k: "keyfunc key \<lparr>Method = alg, Claims = Map.empty, Valid = False\<rparr> = Key key"
    by (auto simp: Decode_def keyfunc_def split: if_splits)
  from assms s a k have "Method token = alg"
    by (auto simp: Decode_def split: if_splits option.splits)
  moreover from k have "2 \<le> length alg \<and> take 2 alg = ''HS''"
    by (auto simp: keyfunc_def split: if_splits)
  ultimately show ?thesis by simp
qed

text \<open>
  Claim C1. For every token string handed to Decode with the key function of the
  middleware: if the header declares an algorithm whose name does not begin with
  \<^verbatim>\<open>HS\<close>, the key function returns an error and no key (the code reports the mismatch
  with the library's \<^verbatim>\<open>ErrTokenSignatureInvalid\<close>), Decode fails with AlgorithmMismatch
  whatever the signature segment holds, and the middleware answers 401 with the body
  \<^verbatim>\<open>invalid token\<close>. Decode accepts no token string whose declared algorithm has not
  passed this check, and the key function returns a key, the process key, only after it.
  The names of the library's signing methods all have two bytes or more.
\<close>

theorem Decode_checks_algorithm_first:
  "(split_on (CHR ''.'') tokenStr = [header, payload, sig] \<and>
    decode_header C header = Some alg \<and> 2 \<le> length alg \<and> take 2 alg \<noteq> ''HS''
    \<longrightarrow> keyfunc key \<lparr>Method = alg, Claims = Map.empty, Valid = False\<rparr> =
          KeyErr ErrTokenSignatureInvalid
        \<and> Decode C now tokenStr (keyfunc key) = ParseErr AlgorithmMismatch
        \<and> jwtAuthMiddleware (Decode C now) key (Some (''Bearer '' @ tokenStr)) =
            Responded (http_Error ''invalid token'' StatusUnauthorized))
   \<and> (\<forall>token. Decode C now tokenStr (keyfunc key) = Parsed token
        \<longrightarrow> take 2 (Method token) = ''HS'')
   \<and> (\<forall>k. keyfunc key t = Key k \<longrightarrow> take 2 (Method t) = ''HS'' \<and> k = key)"
proof (intro conjI impI allI)
  assume h: "split_on (CHR ''.'') tokenStr = [header, payload, sig] \<and>
    decode_header C header = Some alg \<and> 2 \<le> length alg \<and> take 2 alg \<noteq> ''HS''"
  then show "keyfunc key \<lparr>Method = alg, Claims = Map.empty, Valid = False\<rparr> =
          KeyErr ErrTokenSignatureInvalid"
    by (simp add: keyfunc_def)
  from h have d: "Decode C now tokenStr (keyfunc key) = ParseErr AlgorithmMismatch"
    by (intro Decode_algorithm_mismatch) auto
  then show "Decode C now tokenStr (keyfunc key) = ParseErr AlgorithmMismatch" .
  from d show "jwtAuthMiddleware (Decode C now) key (Some (''Bearer '' @ tokenStr)) =
            Responded (http_Error ''invalid token'' StatusUnauthorized)"
    by (simp add: jwtAuthMiddleware_def bearer_token_Bearer[simplified])
next
  fix token assume "Decode C now tokenStr (keyfunc key) = Parsed token"
  then show "take 2 (Method token) = ''HS''" using Decode_Parsed_HS by blast
next
  fix k assume "keyfunc key t = Key k"
  then show "take 2 (Method t) = ''HS''" by (auto simp: keyfunc_def split: if_splits)
next
  fix k assume "keyfunc key t = Key k"
  then show "k = key" by (auto simp: keyfunc_def split: if_splits)
qed

text \<open>
  At a token that declares \<^verbatim>\<open>RS256\<close> and carries the very signature the codec computes
  for that name under the process key, and at one that declares \<^verbatim>\<open>none\<close> with an empty
  signature.
\<close>

theorem Decode_checks_algorithm_first_witness:
  "Decode example_codec 3 ''hRS256.alice,i,eeeee.RS256supersecretkeyhRS256alice,i,eeeee''
     (keyfunc JwtKey) = ParseErr AlgorithmMismatch
   \<and> signature example_codec ''RS256'' JwtKey ''hRS256.alice,i,eeeee'' =
       ''RS256supersecretkeyhRS256alice,i,eeeee''
   \<and> jwtAuthMiddleware (Decode example_codec 3) JwtKey
       (Some ''Bearer hRS256.alice,i,eeeee.RS256supersecretkeyhRS256alice,i,eeeee'') =
       Responded (http_Error ''invalid token'' StatusUnauthorized)
   \<and> Decode example_codec 3 ''hnone.alice,i,eeeee.'' (keyfunc JwtKey) = ParseErr AlgorithmMismatch"
proof -
  have s: "split_on (CHR ''.'') ''hRS256.alice,i,eeeee.RS256supersecretkeyhRS256alice,i,eeeee'' =
      [''hRS256'', ''alice,i,eeeee'', ''RS256supersecretkeyhRS256alice,i,eeeee'']"
    by code_simp
  have h: "decode_header example_codec ''hRS256'' = Some ''RS256''"
    by (simp add: example_codec_def example_decode_header_def)
  have s': "split_on (CHR ''.'') ''hnone.alice,i,eeeee.'' = [''hnone'', ''alice,i,eeeee'', '''']"
    by code_simp
  have h': "decode_header example_codec ''hnone'' = Some ''none''"
    by (simp add: example_codec_def example_decode_header_def)
  have sg: "signature example_codec ''RS256'' JwtKey ''hRS256.alice,i,eeeee'' =
       ''RS256supersecretkeyhRS256alice,i,eeeee''"
    by (simp add: example_codec_def example_signature_def JwtKey_def)
  show ?thesis
    using Decode_checks_algorithm_first
            [of "''hRS256.alice,i,eeeee.RS256supersecretkeyhRS256alice,i,eeeee''"
                "''hRS256''" "''alice,i,eeeee''" "''RS256supersecretkeyhRS256alice,i,eeeee''"
                example_codec "''RS256''" JwtKey 3]
          Decode_checks_algorithm_first
            [of "''hnone.alice,i,eeeee.''" "''hnone''" "''alice,i,eeeee''" "''''"
                example_codec "''none''" JwtKey 3]
          s h s' h' sg
    by simp
qed

text \<open>
  The middleware accepts such a token for every algorithm name of the \<^verbatim>\<open>HS\<close> family,
  \<^verbatim>\<open>HS384\<close> and \<^verbatim>\<open>HS512\<close> as well as \<^verbatim>\<open>HS256\<close>, as long as it has not expired.
\<close>

lemma jwtAuthMiddleware_accepts_HS_family:
  assumes "reversible C alg claims key" and "key \<noteq> []"
    and "2 \<le> length alg" and "take 2 alg = ''HS''"
    and "required_claims claims = Some (sub, iat, exp)" and "\<not> exp < now"
  shows "\<exists>token. Encode C (NewWithClaims alg claims) key = Inr token \<and>
           jwtAuthMiddleware (Decode C now) key (Some (''Bearer '' @ token)) = Next claims"
proof -
  from Decode_Encode[OF assms(1-4), of now] obtain token where
    "Encode C (NewWithClaims alg claims) key = Inr token"
    "Decode C now token (keyfunc key) = Parsed \<lparr>Method = alg, Claims = claims, Valid = True\<rparr>"
    using assms(5,6) by auto
  then show ?thesis
    by (auto simp: jwtAuthMiddleware_def bearer_token_Bearer[simplified])
qed

text \<open>
  Claim C3. Round trip: for a well-formed claim set and a key that is not empty, the token
  that Encode makes under \<^verbatim>\<open>HS256\<close> decodes, under the same key and at any time before
  expiresAt, to the same claim set; the middleware hands that claim set to the next
  handler. The serialisation is any one that is reversible on these claims.
\<close>

theorem Decode_Encode_roundtrip:
  assumes "well_formed claims" and "key \<noteq> []"
    and "reversible C SigningMethodHS256 claims key"
    and "claims ''exp'' = Some (Num exp)" and "now < exp"
  shows "\<exists>token. Encode C (NewWithClaims SigningMethodHS256 claims) key = Inr token \<and>
           Decode C now token (keyfunc key) =
             Parsed \<lparr>Method = SigningMethodHS256, Claims = claims, Valid = True\<rparr> \<and>
           jwtAuthMiddleware (Decode C now) key (Some (''Bearer '' @ token)) = Next claims"
proof -
  from assms(1,4) obtain sub iat where r: "required_claims claims = Some (sub, iat, exp)"
    by (auto simp: well_formed_def required_claims_def split: option.splits claim_value.splits)
  from Decode_Encode[OF assms(3) assms(2), of now] obtain token where
    t: "Encode C (NewWithClaims SigningMethodHS256 claims) key = Inr token"
       "Decode C now token (keyfunc key) =
          Parsed \<lparr>Method = SigningMethodHS256, Claims = claims, Valid = True\<rparr>"
    using r assms(5) by (auto simp: SigningMethodHS256_def)
  then show ?thesis
    by (auto simp: jwtAuthMiddleware_def bearer_token_Bearer[simplified])
qed

theorem Decode_Encode_roundtrip_witness:
  "well_formed example_claims \<and> JwtKey \<noteq> [] \<and>
   Encode example_codec (NewWithClaims SigningMethodHS256 example_claims) JwtKey =
     Inr ''hHS256.alice,i,eeeee.HS256supersecretkeyhHS256alice,i,eeeee'' \<and>
   Decode example_codec 3 ''hHS256.alice,i,eeeee.HS256supersecretkeyhHS256alice,i,eeeee''
     (keyfunc JwtKey) = Parsed \<lparr>Method = SigningMethodHS256, Claims = example_claims, Valid = True\<rparr>"
proof -
  have wf: "well_formed example_claims" by (simp add: well_formed_def required_example)
  have key: "JwtKey \<noteq> []" by (simp add: JwtKey_def)
  have rev: "reversible example_codec SigningMethodHS256 example_claims JwtKey"
    using reversible_example by (simp add: SigningMethodHS256_def)
  have exp: "example_claims ''exp'' = Some (Num 5)" by (simp add: example_claims_def)
  have enc: "Encode example_codec (NewWithClaims SigningMethodHS256 example_claims) JwtKey =
     Inr ''hHS256.alice,i,eeeee.HS256supersecretkeyhHS256alice,i,eeeee''"
    by (simp add: Encode_def NewWithClaims_def SigningMethodHS256_def example_codec_def
        encode_example example_signature_def JwtKey_def)
  from Decode_Encode_roundtrip[OF wf key rev exp, of 3] enc wf key
  show ?thesis by auto
qed

text \<open>
  Claim C6. A token of three parts whose header declares an algorithm of the \<^verbatim>\<open>HS\<close>
  family, whose signature is the right one for the key and whose claims are all there, is
  rejected with TokenExpired when its expiresAt is before the time of decoding; the
  middleware answers 401.
\<close>

theorem Decode_expired:
  assumes "split_on (CHR ''.'') tokenStr = [header, payload, sig]"
    and "decode_header C header = Some alg"
    and "2 \<le> length alg" and "take 2 alg = ''HS''"
    and "signature C alg key (header @ ''.'' @ payload) = sig"
    and "decode_claims C payload = Some claims"
    and "required_claims claims = Some (sub, iat, exp)"
    and "exp < now"
  shows "Decode C now tokenStr (keyfunc key) = ParseErr TokenExpired \<and>
         jwtAuthMiddleware (Decode C now) key (Some (''Bearer '' @ tokenStr)) =
           Responded (http_Error ''invalid token'' StatusUnauthorized)"
proof -
  have kf: "keyfunc key \<lparr>Method = alg, Claims = Map.empty, Valid = False\<rparr> = Key key"
    using assms(3,4) by (simp add: keyfunc_def)
  have "Decode C now tokenStr (keyfunc key) = ParseErr TokenExpired"
    unfolding Decode_def assms(1) using assms(2,5-8) by (simp add: kf)
  then show ?thesis
    by (simp add: jwtAuthMiddleware_def bearer_token_Bearer[simplified])
qed

theorem Decode_expired_witness:
  "Decode example_codec 9 ''hHS256.alice,i,eeeee.HS256supersecretkeyhHS256alice,i,eeeee''
     (keyfunc JwtKey) = ParseErr TokenExpired \<and>
   jwtAuthMiddleware (Decode example_codec 9) JwtKey
     (Some ''Bearer hHS256.alice,i,eeeee.HS256supersecretkeyhHS256alice,i,eeeee'') =
     Responded (http_Error ''invalid token'' StatusUnauthorized)"
proof -
  have s: "split_on (CHR ''.'') ''hHS256.alice,i,eeeee.HS256supersecretkeyhHS256alice,i,eeeee'' =
      [''hHS256'', ''alice,i,eeeee'', ''HS256supersecretkeyhHS256alice,i,eeeee'']"
    by code_simp
  have h: "decode_header example_codec ''hHS256'' = Some ''HS256''"
    by (simp add: example_codec_def example_decode_header_def)
  have sg: "signature example_codec ''HS256'' JwtKey (''hHS256'' @ ''.'' @ ''alice,i,eeeee'') =
      ''HS256supersecretkeyhHS256alice,i,eeeee''"
    by (simp add: example_codec_def example_signature_def JwtKey_def)
  have d: "decode_claims example_codec ''alice,i,eeeee'' = Some example_claims"
    by (simp add: example_codec_def decode_example)
  from Decode_expired[OF s h _ _ sg d required_example, of 9]
  show ?thesis by simp
qed

text \<open>
  Claim C9. Encode fails with EncodingError on the empty key, whatever the token, and the
  login handler, given matching credentials and the empty key, answers 500 with the body
  \<^verbatim>\<open>server error\<close>.
\<close>

theorem Encode_empty_key:
  "Encode C token [] = Inl EncodingError \<and>
   (json_Decode request_body = Some req \<and> Password req = Password OurUser \<and>
      Username req = Username OurUser \<longrightarrow>
    HandleLogin json_Decode (Encode C) OurUser [] now_iat now_exp request_body =
      http_Error ''server error'' StatusInternalServerError)"
  by (simp add: Encode_def HandleLogin_def)

theorem Encode_empty_key_witness:
  "HandleLogin [''{username:alice,password:correct}'' \<mapsto> \<lparr>Username = ''alice'', Password = ''correct''\<rparr>]
     (Encode example_codec) \<lparr>Username = ''alice'', Password = ''correct''\<rparr> [] 0 0
     ''{username:alice,password:correct}'' =
   http_Error ''server error'' StatusInternalServerError
   \<and> status (http_Error ''server error'' StatusInternalServerError) = 500"
  using Encode_empty_key[of example_codec _
      "[''{username:alice,password:correct}'' \<mapsto> \<lparr>Username = ''alice'', Password = ''correct''\<rparr>]"
      "''{username:alice,password:correct}''" "\<lparr>Username = ''alice'', Password = ''correct''\<rparr>"
      "\<lparr>Username = ''alice'', Password = ''correct''\<rparr>" 0 0]
  by (simp add: http_Error_def StatusInternalServerError_def)

end
